theory Spec2Isabelle
  imports Main
begin

section \<open>Version models of ghsa-client: \<open>src/ghsa_client/models/version.py\<close>\<close>

text \<open>
  The module parses version strings into a \<open>SemanticVersion\<close> (a semver triple with
  prerelease and build, the original string, a stripped prefix and the detected format)
  and builds \<open>VersionPredicate\<close>s (operator plus normalised version) from strings.

  Python strings are modelled as \<open>string\<close> (lists of 8-bit characters, read as code
  points below 256), Python's unbounded non-negative integers as \<open>nat\<close>, and every
  \<open>raise\<close> as the \<open>Inl\<close> branch of a sum. The interpreter's optional limit on the
  number of digits of an integer conversion is not modelled.

  The module calls two third-party libraries, which are not part of the repository: the
  \<open>semver\<close> package (\<open>VersionInfo\<close>: parsing, rendering, comparison, \<open>match\<close>) and
  \<open>packaging.version.Version\<close> (PEP 440 parsing). Their behaviour on strings is fixed by
  the regular expressions and the few lines of code they publish; each is modelled below
  by a function that reads a string the way that regular expression does, and the
  regular expression is quoted next to it.
\<close>

subsection \<open>Characters, numbers and splitting\<close>

definition newline :: char where
  "newline = CHR 0x0A"

text \<open>\<open>[0-9]\<close> (and \<open>\d\<close> on code points below 256).\<close>

definition is_digit :: "char \<Rightarrow> bool" where
  "is_digit c = (c \<in> set ''0123456789'')"

text \<open>\<open>[a-zA-Z]\<close>.\<close>

definition is_letter :: "char \<Rightarrow> bool" where
  "is_letter c = (c \<in> set ''abcdefghijklmnopqrstuvwxyzABCDEFGHIJKLMNOPQRSTUVWXYZ'')"

text \<open>
  \<open>\s\<close> and the characters \<open>str.strip()\<close> removes, on code points below 256: tab, line
  feed, vertical tab, form feed, carriage return, the separators 0x1C to 0x1F, space,
  0x85 and 0xA0.
\<close>

definition is_space :: "char \<Rightarrow> bool" where
  "is_space c = (c \<in> set [CHR 0x09, CHR 0x0A, CHR 0x0B, CHR 0x0C, CHR 0x0D,
      CHR 0x1C, CHR 0x1D, CHR 0x1E, CHR 0x1F, CHR 0x20, CHR 0x85, CHR 0xA0])"

text \<open>\<open>str.lower()\<close> on one character (ASCII letters).\<close>

definition lower_char :: "char \<Rightarrow> char" where
  "lower_char c =
     (case map_of (zip ''ABCDEFGHIJKLMNOPQRSTUVWXYZ'' ''abcdefghijklmnopqrstuvwxyz'') c of
        Some d \<Rightarrow> d
      | None \<Rightarrow> c)"

definition digit_val :: "char \<Rightarrow> nat" where
  "digit_val c = of_char c - 48"

definition digit_char :: "nat \<Rightarrow> char" where
  "digit_char n = ''0123456789'' ! n"

text \<open>\<open>int(s)\<close> for a string of decimal digits (leading zeros allowed).\<close>

definition int_of_str :: "string \<Rightarrow> nat" where
  "int_of_str s = foldl (\<lambda>a c. 10 * a + digit_val c) 0 s"

text \<open>\<open>"%d" % n\<close> and \<open>str(n)\<close> for a non-negative integer.\<close>

function str_of_nat :: "nat \<Rightarrow> string" where
  "str_of_nat n =
     (if n < 10 then [digit_char n] else str_of_nat (n div 10) @ [digit_char (n mod 10)])"
  by pat_completeness auto
termination
  by (relation "measure id") auto

declare str_of_nat.simps [simp del]

text \<open>
  \<open>s.split(c)\<close>: every separator splits, empty pieces are kept, and the result is never
  empty (the empty-list branch of the \<open>case\<close> is never taken).
\<close>

fun split_on :: "char \<Rightarrow> string \<Rightarrow> string list" where
  "split_on c [] = [[]]"
| "split_on c (x # xs) =
     (if x = c then [] # split_on c xs
      else (case split_on c xs of
              [] \<Rightarrow> [[x]]
            | p # ps \<Rightarrow> (x # p) # ps))"

text \<open>\<open>s.split(c, maxsplit=n)\<close>: at most \<open>n\<close> splits, from the left.\<close>

fun split_max :: "nat \<Rightarrow> char \<Rightarrow> string \<Rightarrow> string list" where
  "split_max 0 c s = [s]"
| "split_max (Suc n) c s =
     (if c \<in> set s
      then takeWhile (\<lambda>x. x \<noteq> c) s # split_max n c (tl (dropWhile (\<lambda>x. x \<noteq> c) s))
      else [s])"

text \<open>\<open>s.count(c)\<close>.\<close>

definition count_char :: "char \<Rightarrow> string \<Rightarrow> nat" where
  "count_char c s = length (filter (\<lambda>x. x = c) s)"

text \<open>\<open>s.startswith(p)\<close>.\<close>

definition startswith :: "string \<Rightarrow> string \<Rightarrow> bool" where
  "startswith s p = (take (length p) s = p)"

text \<open>\<open>s.strip()\<close>.\<close>

definition strip :: "string \<Rightarrow> string" where
  "strip s = rev (dropWhile is_space (rev (dropWhile is_space s)))"

text \<open>
  A pattern's final \<open>$\<close> matches at the end of the string and also just before one
  trailing line feed; \<open>chop_newline\<close> removes that line feed, so that what is left has to
  match in full.
\<close>

definition chop_newline :: "string \<Rightarrow> string" where
  "chop_newline s = (if s \<noteq> [] \<and> last s = newline then butlast s else s)"

text \<open>
  Cutting a string at the first occurrence of a character: the text before it, and the
  text after it when the character occurs.
\<close>

definition break_at :: "char \<Rightarrow> string \<Rightarrow> string \<times> string option" where
  "break_at c s =
     (takeWhile (\<lambda>x. x \<noteq> c) s,
      if c \<in> set s then Some (tl (dropWhile (\<lambda>x. x \<noteq> c) s)) else None)"

subsection \<open>The \<open>semver\<close> library: \<open>VersionInfo\<close>\<close>

text \<open>
  A \<open>VersionInfo\<close> holds \<open>major\<close>, \<open>minor\<close>, \<open>patch\<close> (non-negative integers) and
  \<open>prerelease\<close>, \<open>build\<close> (a string or \<open>None\<close>). \<open>to_dict()\<close> lists these five fields
  and \<open>VersionInfo(**d)\<close> reads them back, so the dictionary \<open>semver_parts\<close> of the
  module is this record.
\<close>

record VersionInfo =
  major :: nat
  minor :: nat
  patch :: nat
  prerelease :: "string option"
  build :: "string option"

text \<open>
  \<open>VersionInfo.parse(version, optional_minor_and_patch)\<close> matches
  \<^verbatim>\<open>
  ^ (?P<major>0|[1-9]\d*)
    (?: \. (?P<minor>0|[1-9]\d*) (?: \. (?P<patch>0|[1-9]\d*) ){opt_patch} ){opt_minor}
    (?:-(?P<prerelease>
          (?:0|[1-9]\d*|\d*[a-zA-Z-][0-9a-zA-Z-]*)
          (?:\.(?:0|[1-9]\d*|\d*[a-zA-Z-][0-9a-zA-Z-]*))* ))?
    (?:\+(?P<build> [0-9a-zA-Z-]+ (?:\.[0-9a-zA-Z-]+)* ))?
  $
  \<close>
  where \<open>{opt_patch}\<close> and \<open>{opt_minor}\<close> are \<open>?\<close> when \<open>optional_minor_and_patch\<close> is
  set and empty otherwise; a missing minor or patch is 0, and the numbers are read with
  \<open>int\<close>. It raises \<open>ValueError\<close> when the pattern does not match (\<open>None\<close> here).

  The pattern is unambiguous: the numeric core holds digits and dots only and the
  prerelease holds no \<open>+\<close>, so the build starts after the first \<open>+\<close> and the prerelease
  after the first \<open>-\<close> before it.
\<close>

text \<open>\<open>[0-9a-zA-Z-]\<close>.\<close>

definition is_ident_char :: "char \<Rightarrow> bool" where
  "is_ident_char c = (is_digit c \<or> is_letter c \<or> c = CHR ''-'')"

text \<open>\<open>0|[1-9]\d*\<close>.\<close>

definition numeric_ident_ok :: "string \<Rightarrow> bool" where
  "numeric_ident_ok s =
     (case s of
        [] \<Rightarrow> False
      | c # cs \<Rightarrow> list_all is_digit s \<and> (c \<noteq> CHR ''0'' \<or> cs = []))"

text \<open>\<open>0|[1-9]\d*|\d*[a-zA-Z-][0-9a-zA-Z-]*\<close>.\<close>

definition pre_ident_ok :: "string \<Rightarrow> bool" where
  "pre_ident_ok s =
     (numeric_ident_ok s \<or> (list_all is_ident_char s \<and> \<not> list_all is_digit s))"

text \<open>\<open>[0-9a-zA-Z-]+\<close>.\<close>

definition build_ident_ok :: "string \<Rightarrow> bool" where
  "build_ident_ok s = (s \<noteq> [] \<and> list_all is_ident_char s)"

definition prerelease_ok :: "string \<Rightarrow> bool" where
  "prerelease_ok p = list_all pre_ident_ok (split_on CHR ''.'' p)"

definition build_ok :: "string \<Rightarrow> bool" where
  "build_ok b = list_all build_ident_ok (split_on CHR ''.'' b)"

definition semver_parse :: "bool \<Rightarrow> string \<Rightarrow> VersionInfo option" where
  "semver_parse optional_minor_and_patch version =
     (let (head, build_part) = break_at CHR ''+'' (chop_newline version);
          (core, pre_part) = break_at CHR ''-'' head;
          nums = split_on CHR ''.'' core
      in if list_all numeric_ident_ok nums
            \<and> (length nums = 3 \<or> (optional_minor_and_patch \<and> length nums < 3))
            \<and> (case pre_part of None \<Rightarrow> True | Some p \<Rightarrow> prerelease_ok p)
            \<and> (case build_part of None \<Rightarrow> True | Some b \<Rightarrow> build_ok b)
         then Some \<lparr> major = int_of_str (nums ! 0),
                     minor = (if 1 < length nums then int_of_str (nums ! 1) else 0),
                     patch = (if 2 < length nums then int_of_str (nums ! 2) else 0),
                     prerelease = pre_part,
                     build = build_part \<rparr>
         else None)"

text \<open>
  \<open>str(v)\<close>: \<open>"%d.%d.%d"\<close>, then \<open>-prerelease\<close> and \<open>+build\<close> when they are truthy (neither
  \<open>None\<close> nor empty).
\<close>

definition truthy :: "string option \<Rightarrow> bool" where
  "truthy x = (case x of None \<Rightarrow> False | Some s \<Rightarrow> s \<noteq> [])"

definition VersionInfo_str :: "VersionInfo \<Rightarrow> string" where
  "VersionInfo_str v =
     str_of_nat (major v) @ ''.'' @ str_of_nat (minor v) @ ''.'' @ str_of_nat (patch v)
     @ (if truthy (prerelease v) then ''-'' @ the (prerelease v) else [])
     @ (if truthy (build v) then ''+'' @ the (build v) else [])"

text \<open>
  \<open>compare\<close>: \<open>_cmp(a, b) = (a > b) - (a < b)\<close> on the triples, and \<open>_nat_cmp\<close> on the
  prereleases when the triples are equal:
  \<^verbatim>\<open>
  a, b = a or "", b or ""
  a_parts, b_parts = a.split("."), b.split(".")
  a_parts = [int(x) if re.match(r"^\d+$", x) else x for x in a_parts]   # same for b
  for sub_a, sub_b in zip(a_parts, b_parts):
      cmp_result = cmp_prerelease_tag(sub_a, sub_b)
      if cmp_result != 0: return cmp_result
  else:
      return _cmp(len(a), len(b))
  \<close>
  where \<open>cmp_prerelease_tag\<close> compares two integers or two strings with \<open>_cmp\<close> and puts an
  integer below a string. Strings compare by code points.
\<close>

definition cmp_nat :: "nat \<Rightarrow> nat \<Rightarrow> int" where
  "cmp_nat a b = (if a < b then - 1 else if b < a then 1 else 0)"

fun cmp_str :: "string \<Rightarrow> string \<Rightarrow> int" where
  "cmp_str [] [] = 0"
| "cmp_str [] (y # ys) = - 1"
| "cmp_str (x # xs) [] = 1"
| "cmp_str (x # xs) (y # ys) =
     (if (of_char x :: nat) < of_char y then - 1
      else if (of_char y :: nat) < of_char x then 1
      else cmp_str xs ys)"

definition cmp_triple :: "nat \<times> nat \<times> nat \<Rightarrow> nat \<times> nat \<times> nat \<Rightarrow> int" where
  "cmp_triple a b =
     (case (a, b) of ((a1, a2, a3), (b1, b2, b3)) \<Rightarrow>
        if cmp_nat a1 b1 \<noteq> 0 then cmp_nat a1 b1
        else if cmp_nat a2 b2 \<noteq> 0 then cmp_nat a2 b2
        else cmp_nat a3 b3)"

datatype tag = IntTag nat | StrTag string

definition to_tag :: "string \<Rightarrow> tag" where
  "to_tag x =
     (if chop_newline x \<noteq> [] \<and> list_all is_digit (chop_newline x)
      then IntTag (int_of_str (chop_newline x))
      else StrTag x)"

fun cmp_prerelease_tag :: "tag \<Rightarrow> tag \<Rightarrow> int" where
  "cmp_prerelease_tag (IntTag a) (IntTag b) = cmp_nat a b"
| "cmp_prerelease_tag (IntTag a) (StrTag b) = - 1"
| "cmp_prerelease_tag (StrTag a) (IntTag b) = 1"
| "cmp_prerelease_tag (StrTag a) (StrTag b) = cmp_str a b"

text \<open>The loop over the zipped parts: \<open>Some r\<close> when it returns \<open>r\<close>, \<open>None\<close> when it runs out.\<close>

fun nat_cmp_loop :: "tag list \<Rightarrow> tag list \<Rightarrow> int option" where
  "nat_cmp_loop (a # as) (b # bs) =
     (if cmp_prerelease_tag a b \<noteq> 0 then Some (cmp_prerelease_tag a b)
      else nat_cmp_loop as bs)"
| "nat_cmp_loop as bs = None"

definition or_empty :: "string option \<Rightarrow> string" where
  "or_empty x = (case x of None \<Rightarrow> [] | Some s \<Rightarrow> s)"

definition nat_cmp :: "string option \<Rightarrow> string option \<Rightarrow> int" where
  "nat_cmp a b =
     (case nat_cmp_loop (map to_tag (split_on CHR ''.'' (or_empty a)))
                        (map to_tag (split_on CHR ''.'' (or_empty b))) of
        Some r \<Rightarrow> r
      | None \<Rightarrow> cmp_nat (length (or_empty a)) (length (or_empty b)))"

definition compare :: "VersionInfo \<Rightarrow> VersionInfo \<Rightarrow> int" where
  "compare v other =
     (let x = cmp_triple (major v, minor v, patch v) (major other, minor other, patch other)
      in if x \<noteq> 0 then x
         else let rccmp = nat_cmp (prerelease v) (prerelease other)
              in if rccmp = 0 then 0
                 else if \<not> truthy (prerelease v) then 1
                 else if \<not> truthy (prerelease other) then - 1
                 else rccmp)"

text \<open>\<open>VersionInfo.__eq__\<close> and \<open>VersionInfo.__lt__\<close> between two \<open>VersionInfo\<close>s.\<close>

definition VersionInfo_eq :: "VersionInfo \<Rightarrow> VersionInfo \<Rightarrow> bool" where
  "VersionInfo_eq a b = (compare a b = 0)"


subsection \<open>Errors\<close>

text \<open>
  The exceptions the module and the two libraries raise. A \<open>ValueError\<close> carries its
  message where the module builds it; the messages of the \<open>semver\<close> library are
  shortened to their fixed part.
\<close>

datatype error = ValueError string | NotImplementedError | IndexError





subsection \<open>The \<open>packaging\<close> library: \<open>Version\<close> (PEP 440)\<close>

text \<open>
  \<open>packaging.version.Version(version)\<close> searches the string for
  \<^verbatim>\<open>
  ^\s* v?
  (?:
      (?:(?P<epoch>[0-9]+)!)?
      (?P<release>[0-9]+(?:\.[0-9]+)*)
      (?P<pre>  [-_\.]? (?P<pre_l>alpha|a|beta|b|preview|pre|c|rc) [-_\.]? (?P<pre_n>[0-9]+)? )?
      (?P<post> (?:-(?P<post_n1>[0-9]+))
              | (?: [-_\.]? (?P<post_l>post|rev|r) [-_\.]? (?P<post_n2>[0-9]+)? ) )?
      (?P<dev>  [-_\.]? (?P<dev_l>dev) [-_\.]? (?P<dev_n>[0-9]+)? )?
  )
  (?:\+(?P<local>[a-z0-9]+(?:[-_\.][a-z0-9]+)*))?
  \s*$
  \<close>
  ignoring case, and raises \<open>InvalidVersion\<close> when it does not match (\<open>None\<close> here). The
  release is the tuple of its numbers; \<open>pre\<close>, \<open>post\<close> and \<open>dev\<close> come from
  \<open>_parse_letter_version\<close>. The module reads \<open>major\<close>, \<open>minor\<close>, \<open>micro\<close>, \<open>pre\<close>, \<open>post\<close>
  and \<open>dev\<close>; the epoch and the local version are recognised and not kept.

  Each optional part of the pattern can only start with a character the part before it
  cannot continue with, so reading the parts greedily from left to right (and falling
  back to "absent" when a part does not match where it stands) finds the match the pattern
  finds.
\<close>

record pypi_version =
  release :: "nat list"
  pre :: "(string \<times> nat) option"
  post :: "nat option"
  dev :: "nat option"

text \<open>\<open>major\<close>, \<open>minor\<close>, \<open>micro\<close>: the first three release numbers, 0 when missing.\<close>

definition pypi_major :: "pypi_version \<Rightarrow> nat" where
  "pypi_major v = (if 1 \<le> length (release v) then release v ! 0 else 0)"

definition pypi_minor :: "pypi_version \<Rightarrow> nat" where
  "pypi_minor v = (if 2 \<le> length (release v) then release v ! 1 else 0)"

definition pypi_micro :: "pypi_version \<Rightarrow> nat" where
  "pypi_micro v = (if 3 \<le> length (release v) then release v ! 2 else 0)"

text \<open>
  \<^verbatim>\<open>
  def _parse_letter_version(letter, number):
      if letter:
          if number is None: number = 0
          letter = letter.lower()
          if letter == "alpha": letter = "a"
          elif letter == "beta": letter = "b"
          elif letter in ["c", "pre", "preview"]: letter = "rc"
          elif letter in ["rev", "r"]: letter = "post"
          return letter, int(number)
      if not letter and number:
          letter = "post"
          return letter, int(number)
      return None
  \<close>
\<close>

definition normalize_letter :: "string \<Rightarrow> string" where
  "normalize_letter letter =
     (if letter = ''alpha'' then ''a''
      else if letter = ''beta'' then ''b''
      else if letter \<in> set [''c'', ''pre'', ''preview''] then ''rc''
      else if letter \<in> set [''rev'', ''r''] then ''post''
      else letter)"

definition parse_letter_version :: "string option \<Rightarrow> string option \<Rightarrow> (string \<times> nat) option" where
  "parse_letter_version letter number =
     (if truthy letter
      then Some (normalize_letter (map lower_char (the letter)),
                 case number of None \<Rightarrow> 0 | Some n \<Rightarrow> int_of_str n)
      else if truthy number then Some (''post'', int_of_str (the number))
      else None)"

text \<open>\<open>[-_\.]?\<close>.\<close>

definition opt_sep :: "string \<Rightarrow> string" where
  "opt_sep s = (case s of [] \<Rightarrow> [] | c # r \<Rightarrow> if c \<in> set ''-_.'' then r else s)"

text \<open>A keyword at the start of the string, ignoring case.\<close>

definition starts_with_ci :: "string \<Rightarrow> string \<Rightarrow> bool" where
  "starts_with_ci k s = (length k \<le> length s \<and> map lower_char (take (length k) s) = k)"

text \<open>
  An alternation of keywords, tried in the order written: the text that matched and the
  rest of the string.
\<close>

fun match_keyword :: "string list \<Rightarrow> string \<Rightarrow> (string \<times> string) option" where
  "match_keyword [] s = None"
| "match_keyword (k # ks) s =
     (if starts_with_ci k s then Some (take (length k) s, drop (length k) s)
      else match_keyword ks s)"

text \<open>\<open>([0-9]+)?\<close>: the digits (\<open>None\<close> when there are none) and the rest.\<close>

definition opt_number :: "string \<Rightarrow> string option \<times> string" where
  "opt_number s =
     (if takeWhile is_digit s = [] then None else Some (takeWhile is_digit s),
      dropWhile is_digit s)"

text \<open>\<open>[-_\.]? (keyword) [-_\.]? ([0-9]+)?\<close>: the letter, the number and the rest.\<close>

definition letter_segment ::
  "string list \<Rightarrow> string \<Rightarrow> ((string \<times> string option) \<times> string) option" where
  "letter_segment keywords s =
     (case match_keyword keywords (opt_sep s) of
        None \<Rightarrow> None
      | Some (l, r) \<Rightarrow> Some ((l, fst (opt_number (opt_sep r))), snd (opt_number (opt_sep r))))"

definition pre_keywords :: "string list" where
  "pre_keywords = [''alpha'', ''a'', ''beta'', ''b'', ''preview'', ''pre'', ''c'', ''rc'']"

definition post_keywords :: "string list" where
  "post_keywords = [''post'', ''rev'', ''r'']"

text \<open>\<open>v?\<close> (ignoring case).\<close>

definition skip_v :: "string \<Rightarrow> string" where
  "skip_v s = (case s of [] \<Rightarrow> [] | c # r \<Rightarrow> if lower_char c = CHR ''v'' then r else s)"

text \<open>\<open>(?:([0-9]+)!)?\<close>.\<close>

definition skip_epoch :: "string \<Rightarrow> string" where
  "skip_epoch s =
     (case dropWhile is_digit s of
        [] \<Rightarrow> s
      | c # r \<Rightarrow> if takeWhile is_digit s \<noteq> [] \<and> c = CHR ''!'' then r else s)"

text \<open>\<open>[0-9]+(?:\.[0-9]+)*\<close>: the numbers and the rest.\<close>

function scan_release :: "string \<Rightarrow> (nat list \<times> string) option" where
  "scan_release s =
     (if takeWhile is_digit s = [] then None
      else (case dropWhile is_digit s of
              c # e # r \<Rightarrow>
                if c = CHR ''.'' \<and> is_digit e
                then (case scan_release (e # r) of
                        None \<Rightarrow> None
                      | Some (ns, r') \<Rightarrow> Some (int_of_str (takeWhile is_digit s) # ns, r'))
                else Some ([int_of_str (takeWhile is_digit s)], dropWhile is_digit s)
            | _ \<Rightarrow> Some ([int_of_str (takeWhile is_digit s)], dropWhile is_digit s)))"
  by pat_completeness auto
termination
  apply (relation "measure length")
   apply simp
  subgoal for s c cs e r
    using length_dropWhile_le [of is_digit s] by simp
  done

declare scan_release.simps [simp del]

text \<open>\<open>[a-z0-9]+(?:[-_\.][a-z0-9]+)*\<close> (ignoring case): the rest after it.\<close>

definition is_local_char :: "char \<Rightarrow> bool" where
  "is_local_char c = (is_digit c \<or> is_letter c)"

function local_body :: "string \<Rightarrow> string option" where
  "local_body s =
     (if takeWhile is_local_char s = [] then None
      else (case dropWhile is_local_char s of
              c # e # r \<Rightarrow>
                if c \<in> set ''-_.'' \<and> is_local_char e then local_body (e # r)
                else Some (dropWhile is_local_char s)
            | _ \<Rightarrow> Some (dropWhile is_local_char s)))"
  by pat_completeness auto
termination
  apply (relation "measure length")
   apply simp
  subgoal for s c cs e r
    using length_dropWhile_le [of is_local_char s] by simp
  done

declare local_body.simps [simp del]

text \<open>\<open>(?:\+(local))?\<close>: the rest after the local version, when there is one.\<close>

definition scan_local :: "string \<Rightarrow> string" where
  "scan_local s =
     (case s of
        [] \<Rightarrow> []
      | c # r \<Rightarrow> if c = CHR ''+'' then (case local_body r of None \<Rightarrow> s | Some r' \<Rightarrow> r') else s)"

definition scan_pre :: "string \<Rightarrow> (string \<times> nat) option \<times> string" where
  "scan_pre s =
     (case letter_segment pre_keywords s of
        None \<Rightarrow> (None, s)
      | Some ((l, n), r) \<Rightarrow> (parse_letter_version (Some l) n, r))"

text \<open>\<open>-([0-9]+)\<close>, the first way to write a post release.\<close>

definition post_n1 :: "string \<Rightarrow> (string \<times> string) option" where
  "post_n1 s =
     (case s of
        [] \<Rightarrow> None
      | c # r \<Rightarrow> if c = CHR ''-'' \<and> takeWhile is_digit r \<noteq> []
                 then Some (takeWhile is_digit r, dropWhile is_digit r) else None)"

definition scan_post :: "string \<Rightarrow> (string \<times> nat) option \<times> string" where
  "scan_post s =
     (case post_n1 s of
        Some (n, r) \<Rightarrow> (parse_letter_version None (Some n), r)
      | None \<Rightarrow>
          (case letter_segment post_keywords s of
             None \<Rightarrow> (None, s)
           | Some ((l, n), r) \<Rightarrow> (parse_letter_version (Some l) n, r)))"

definition scan_dev :: "string \<Rightarrow> (string \<times> nat) option \<times> string" where
  "scan_dev s =
     (case letter_segment [''dev''] s of
        None \<Rightarrow> (None, s)
      | Some ((l, n), r) \<Rightarrow> (parse_letter_version (Some l) n, r))"

definition PyPIVersion :: "string \<Rightarrow> pypi_version option" where
  "PyPIVersion version =
     (case scan_release (skip_epoch (skip_v (dropWhile is_space version))) of
        None \<Rightarrow> None
      | Some (rel, s3) \<Rightarrow>
          (let (pre_v, s4) = scan_pre s3;
               (post_v, s5) = scan_post s4;
               (dev_v, s6) = scan_dev s5
           in if list_all is_space (scan_local s6)
              then Some \<lparr> release = rel, pre = pre_v,
                          post = map_option snd post_v, dev = map_option snd dev_v \<rparr>
              else None))"

subsection \<open>The module: \<open>VersionFormat\<close>, \<open>SemanticVersion\<close>, \<open>VersionPredicate\<close>\<close>

text \<open>The enumeration of the module has three members.\<close>

datatype VersionFormat = SEMVER | PYPI | UNKNOWN

text \<open>
  Both classes are pydantic models: the constructor checks the field types and nothing
  else, so every value of the record types below can be constructed.
\<close>

record VersionPredicate =
  operator :: string
  version :: string
  version_format :: VersionFormat

record SemanticVersion =
  semver_parts :: VersionInfo
  original_version :: string
  prefix :: string
  version_format :: VersionFormat

text \<open>The property \<open>version_info\<close>: \<open>VersionInfo(**self.semver_parts)\<close>.\<close>

definition version_info :: "SemanticVersion \<Rightarrow> VersionInfo" where
  "version_info self = semver_parts self"

text \<open>\<open>__str__\<close>.\<close>

definition SemanticVersion_str :: "SemanticVersion \<Rightarrow> string" where
  "SemanticVersion_str self =
     (let version_str = VersionInfo_str (version_info self)
      in if prefix self \<noteq> [] then prefix self @ version_str else version_str)"

text \<open>The slice \<open>original_version[len(prefix):]\<close> is \<open>drop\<close>: past the end it is empty.\<close>

definition installable_version :: "SemanticVersion \<Rightarrow> string" where
  "installable_version self =
     (if original_version self \<noteq> []
      then drop (length (prefix self)) (original_version self)
      else SemanticVersion_str self)"

definition to_semver :: "SemanticVersion \<Rightarrow> string" where
  "to_semver self = VersionInfo_str (version_info self)"

text \<open>
  \<open>re.match("^((?:.+@)?v|V)(.*)", version)\<close>. Group 1 is \<open>(?:.+@)?v\<close> or else \<open>V\<close>: the
  alternation binds weaker than the concatenation. \<open>.\<close> matches every character but
  the line feed, so the match stays in the first line; \<open>.+\<close> is greedy, so with the
  optional part the match ends at the last \<open>@v\<close> that has a character before it.
  \<open>find_at_v s\<close> is the longest start of \<open>s\<close> that ends in \<open>@v\<close>.
\<close>

fun find_at_v :: "string \<Rightarrow> string option" where
  "find_at_v [] = None"
| "find_at_v (c # cs) =
     (case find_at_v cs of
        Some p \<Rightarrow> Some (c # p)
      | None \<Rightarrow> if c = CHR ''@'' \<and> startswith cs ''v'' then Some ''@v'' else None)"

definition match_prefix :: "string \<Rightarrow> (string \<times> string) option" where
  "match_prefix version_str =
     (case takeWhile (\<lambda>x. x \<noteq> newline) version_str of
        [] \<Rightarrow> None
      | c # cs \<Rightarrow>
          (case find_at_v cs of
             Some p \<Rightarrow> Some (c # p, drop (length p) cs)
           | None \<Rightarrow>
               if c = CHR ''v'' then Some (''v'', cs)
               else if c = CHR ''V'' then Some (''V'', cs)
               else None))"

definition parse_semver :: "string \<Rightarrow> string \<Rightarrow> string \<Rightarrow> error + SemanticVersion" where
  "parse_semver version_str pfx original =
     (case semver_parse True version_str of
        None \<Rightarrow> Inl (ValueError (''Invalid semver version: '' @ version_str))
      | Some semver_version \<Rightarrow>
          Inr \<lparr> semver_parts = semver_version, original_version = original,
                prefix = pfx, version_format = SEMVER \<rparr>)"

text \<open>
  \<open>if pypi_version.dev:\<close> and \<open>if pypi_version.post:\<close> test an optional integer: \<open>None\<close>
  and 0 are both false.
\<close>

definition nonzero :: "nat option \<Rightarrow> bool" where
  "nonzero x = (case x of None \<Rightarrow> False | Some n \<Rightarrow> n \<noteq> 0)"

definition parse_pypi :: "string \<Rightarrow> string \<Rightarrow> string \<Rightarrow> error + SemanticVersion" where
  "parse_pypi version_str pfx original =
     (case PyPIVersion version_str of
        None \<Rightarrow> Inl (ValueError (''Invalid PyPI version: '' @ version_str))
      | Some pypi_version \<Rightarrow>
          (let prerelease =
                 (case pre pypi_version of
                    None \<Rightarrow> None
                  | Some (pre_type, pre_num) \<Rightarrow>
                      if pre_type = ''a'' then Some (''alpha.'' @ str_of_nat pre_num)
                      else if pre_type = ''b'' then Some (''beta.'' @ str_of_nat pre_num)
                      else if pre_type = ''rc'' then Some (''rc.'' @ str_of_nat pre_num)
                      else Some (pre_type @ ''.'' @ str_of_nat pre_num));
               build0 =
                 (if nonzero (dev pypi_version)
                  then Some (''dev.'' @ str_of_nat (the (dev pypi_version)))
                  else None);
               build1 =
                 (if nonzero (post pypi_version)
                  then (if truthy build0
                        then Some (the build0 @ ''.post'' @ str_of_nat (the (post pypi_version)))
                        else Some (''post.'' @ str_of_nat (the (post pypi_version))))
                  else build0)
           in Inr \<lparr> semver_parts =
                       \<lparr> major = pypi_major pypi_version, minor = pypi_minor pypi_version,
                         patch = pypi_micro pypi_version, prerelease = prerelease,
                         build = build1 \<rparr>,
                     original_version = original, prefix = pfx, version_format = PYPI \<rparr>))"

text \<open>
  \<open>_parse_legacy\<close>. With more than two dots \<open>split(".", maxsplit=3)\<close> has four pieces;
  the other branch of the \<open>case\<close> stands for the unpacking error and is never taken.
\<close>

definition parse_legacy_semver :: "string \<Rightarrow> string \<Rightarrow> string \<Rightarrow> error + SemanticVersion" where
  "parse_legacy_semver version_str pfx original =
     (case semver_parse True version_str of
        None \<Rightarrow> Inl (ValueError (''Invalid version: '' @ version_str))
      | Some semver_version \<Rightarrow>
          Inr \<lparr> semver_parts = semver_version, original_version = original,
                prefix = pfx, version_format = UNKNOWN \<rparr>)"

definition parse_legacy :: "string \<Rightarrow> string \<Rightarrow> string \<Rightarrow> error + SemanticVersion" where
  "parse_legacy version_str pfx original =
     (if 2 < count_char CHR ''.'' version_str
      then (case split_max 3 CHR ''.'' version_str of
              [major_s, minor_s, patch_s, release_s] \<Rightarrow>
                parse_legacy_semver
                  (major_s @ ''.'' @ minor_s @ ''.'' @ patch_s @ ''-'' @ release_s) pfx original
            | _ \<Rightarrow> Inl (ValueError ''not enough values to unpack (expected 4)''))
      else parse_legacy_semver version_str pfx original)"

definition parse :: "string \<Rightarrow> error + SemanticVersion" where
  "parse version_str =
     (let original = version_str;
          (pfx, rest) = (case match_prefix version_str of
                           Some (g1, g2) \<Rightarrow> (g1, g2)
                         | None \<Rightarrow> ([], version_str))
      in case parse_semver rest pfx original of
           Inr r \<Rightarrow> Inr r
         | Inl e1 \<Rightarrow>
             (case parse_pypi rest pfx original of
                Inr r \<Rightarrow> Inr r
              | Inl e2 \<Rightarrow> parse_legacy rest pfx original))"

text \<open>
  \<open>__eq__(self, other: object)\<close> takes any Python object; \<open>py_object\<close> lists the
  \<open>SemanticVersion\<close>s and a few kinds of other values.
\<close>

datatype py_object =
  PySemanticVersion SemanticVersion
| PyVersionPredicate VersionPredicate
| PyStr string
| PyInt int
| PyNone

definition SemanticVersion_eq :: "SemanticVersion \<Rightarrow> py_object \<Rightarrow> error + bool" where
  "SemanticVersion_eq self other =
     (case other of
        PySemanticVersion other_version \<Rightarrow>
          Inr (VersionInfo_eq (version_info self) (version_info other_version))
      | _ \<Rightarrow> Inl NotImplementedError)"


text \<open>
  The other comparisons between two \<open>SemanticVersion\<close>s: \<open>__ne__\<close> is Python's default
  (the negation of \<open>__eq__\<close>), and \<open>functools.total_ordering\<close> derives \<open>__le__\<close> (\<open>self < other or
  self == other\<close>), \<open>__gt__\<close> (\<open>not self < other and self != other\<close>) and \<open>__ge__\<close>
  (\<open>not self < other\<close>) from \<open>__lt__\<close>.
\<close>

definition SemanticVersion_eq2 :: "SemanticVersion \<Rightarrow> SemanticVersion \<Rightarrow> bool" where
  "SemanticVersion_eq2 self other = VersionInfo_eq (version_info self) (version_info other)"





text \<open>\<open>xs[1]\<close>, which raises \<open>IndexError\<close> on a list with fewer than two elements.\<close>

definition index1 :: "string list \<Rightarrow> error + string" where
  "index1 xs = (if 1 < length xs then Inr (xs ! 1) else Inl IndexError)"

definition to_pypi_prerelease :: "string \<Rightarrow> string option \<Rightarrow> error + string" where
  "to_pypi_prerelease pypi_version pre_opt =
     (if truthy pre_opt
      then (let p = the pre_opt
            in if startswith p ''alpha.''
               then (case index1 (split_on CHR ''.'' p) of
                       Inl e \<Rightarrow> Inl e | Inr n \<Rightarrow> Inr (pypi_version @ ''a'' @ n))
               else if startswith p ''beta.''
               then (case index1 (split_on CHR ''.'' p) of
                       Inl e \<Rightarrow> Inl e | Inr n \<Rightarrow> Inr (pypi_version @ ''b'' @ n))
               else if startswith p ''rc.''
               then (case index1 (split_on CHR ''.'' p) of
                       Inl e \<Rightarrow> Inl e | Inr n \<Rightarrow> Inr (pypi_version @ ''rc'' @ n))
               else Inr (pypi_version @ ''-'' @ p))
      else Inr pypi_version)"

definition to_pypi_build :: "string \<Rightarrow> string option \<Rightarrow> error + string" where
  "to_pypi_build pypi_version build_opt =
     (if truthy build_opt
      then (let b = the build_opt
            in if startswith b ''dev.''
               then (case index1 (split_on CHR ''.'' b) of
                       Inl e \<Rightarrow> Inl e | Inr n \<Rightarrow> Inr (pypi_version @ ''.dev'' @ n))
               else if startswith b ''post.''
               then (case index1 (split_on CHR ''.'' b) of
                       Inl e \<Rightarrow> Inl e | Inr n \<Rightarrow> Inr (pypi_version @ ''.post'' @ n))
               else Inr (pypi_version @ ''+'' @ b))
      else Inr pypi_version)"

text \<open>
  \<open>to_pypi\<close>: the triple, then the block that handles the prerelease, then the block that
  handles the build.
\<close>

definition to_pypi :: "SemanticVersion \<Rightarrow> error + string" where
  "to_pypi self =
     (let v = version_info self;
          pypi_version = str_of_nat (major v) @ ''.'' @ str_of_nat (minor v) @ ''.''
                         @ str_of_nat (patch v)
      in case to_pypi_prerelease pypi_version (prerelease v) of
           Inl e \<Rightarrow> Inl e
         | Inr with_pre \<Rightarrow> to_pypi_build with_pre (build v))"

text \<open>\<open>VersionPredicate.__str__\<close>.\<close>

definition VersionPredicate_str :: "VersionPredicate \<Rightarrow> string" where
  "VersionPredicate_str self = operator self @ version self"


definition operator_map :: "(string \<times> string) list" where
  "operator_map =
     [(''<'', ''__lt__''), (''<='', ''__le__''), (''>'', ''__gt__''),
      (''>='', ''__ge__''), (''!='', ''__ne__''), (''=='', ''__eq__'')]"

definition operator_to_symbol :: "VersionPredicate \<Rightarrow> error + string" where
  "operator_to_symbol self =
     (case map_of operator_map (operator self) of
        None \<Rightarrow> Inl (ValueError (''Invalid operator: '' @ operator self))
      | Some symbol \<Rightarrow> Inr symbol)"

text \<open>
  \<open>re.match(r"^(!=|<=|>=|<|>|==|=)\s*(.*)", s)\<close>: the first operator of the list the
  string starts with, white space, and the rest of the line.
\<close>

fun match_operator :: "string list \<Rightarrow> string \<Rightarrow> (string \<times> string) option" where
  "match_operator [] s = None"
| "match_operator (op # ops) s =
     (if startswith s op then Some (op, drop (length op) s) else match_operator ops s)"

definition match_predicate :: "string \<Rightarrow> (string \<times> string) option" where
  "match_predicate s =
     (case match_operator [''!='', ''<='', ''>='', ''<'', ''>'', ''=='', ''=''] s of
        None \<Rightarrow> None
      | Some (op, r) \<Rightarrow> Some (op, takeWhile (\<lambda>x. x \<noteq> newline) (dropWhile is_space r)))"

definition from_str :: "string \<Rightarrow> error + VersionPredicate" where
  "from_str s =
     (case match_predicate (strip s) of
        None \<Rightarrow> Inl (ValueError ''Invalid version predicate format'')
      | Some (op, version_str) \<Rightarrow>
          (let op' = (if op = ''='' then ''=='' else op)
           in case parse version_str of
                Inl (ValueError msg) \<Rightarrow>
                  Inl (ValueError (''Invalid version predicate format: '' @ msg))
              | Inl e \<Rightarrow> Inl e
              | Inr normalized_version \<Rightarrow>
                  Inr \<lparr> operator = op',
                        version = VersionInfo_str (version_info normalized_version),
                        VersionPredicate.version_format =
                          SemanticVersion.version_format normalized_version \<rparr>))"

text \<open>The property \<open>semver\<close>.\<close>

definition semver :: "VersionPredicate \<Rightarrow> error + SemanticVersion" where
  "semver self = parse (version self)"

definition to_pypi_predicate :: "VersionPredicate \<Rightarrow> error + string" where
  "to_pypi_predicate self =
     (case semver self of
        Inl e \<Rightarrow> Inl e
      | Inr semver_version \<Rightarrow>
          (case to_pypi semver_version of
             Inl e \<Rightarrow> Inl e
           | Inr pypi_version \<Rightarrow> Inr (operator self @ pypi_version)))"

definition to_semver_predicate :: "VersionPredicate \<Rightarrow> error + string" where
  "to_semver_predicate self =
     (case semver self of
        Inl e \<Rightarrow> Inl e
      | Inr semver_version \<Rightarrow> Inr (operator self @ to_semver semver_version))"

subsection \<open>Notions used in the proofs\<close>

text \<open>\<open>c.join(parts)\<close>, the inverse of \<open>split_on\<close>.\<close>

fun join :: "char \<Rightarrow> string list \<Rightarrow> string" where
  "join c [] = []"
| "join c [p] = p"
| "join c (p # q # ps) = p @ c # join c (q # ps)"







section \<open>Lemmas\<close>

subsection \<open>The readers on sample strings\<close>

text \<open>
  What the three pattern readers and \<open>from_str\<close> return on strings that exercise the
  corners of the patterns: the optional minor and patch, the trailing line feed, leading
  zeros, the several spellings of PEP 440 pre and post releases, the greedy prefix.
\<close>

lemma semver_parse_samples:
  "semver_parse True ''4.2'' = Some \<lparr> major = 4, minor = 2, patch = 0, prerelease = None, build = None \<rparr>"
  "semver_parse False ''4.2'' = None"
  "semver_parse True (''1.0.0'' @ [newline]) =
     Some \<lparr> major = 1, minor = 0, patch = 0, prerelease = None, build = None \<rparr>"
  "semver_parse True ''1.0.0-alpha.1+dev.1'' =
     Some \<lparr> major = 1, minor = 0, patch = 0, prerelease = Some ''alpha.1'', build = Some ''dev.1'' \<rparr>"
  "semver_parse True ''1-a'' = Some \<lparr> major = 1, minor = 0, patch = 0, prerelease = Some ''a'', build = None \<rparr>"
  "semver_parse True ''1+b-c'' = Some \<lparr> major = 1, minor = 0, patch = 0, prerelease = None, build = Some ''b-c'' \<rparr>"
  "semver_parse True ''1.0.0-0a'' = Some \<lparr> major = 1, minor = 0, patch = 0, prerelease = Some ''0a'', build = None \<rparr>"
  "semver_parse True ''1.0.0-01'' = None"
  "semver_parse True ''01.0.0'' = None"
  "semver_parse True ''1.0.0-a..b'' = None"
  "semver_parse True ''1.0.0-a+b+c'' = None"
  "semver_parse True ''1.0.0a1'' = None"
  "semver_parse True ''1.2.3.x'' = None"
  by code_simp+

lemma PyPIVersion_samples:
  "PyPIVersion ''1.0.0a1'' = Some \<lparr> release = [1, 0, 0], pre = Some (''a'', 1), post = None, dev = None \<rparr>"
  "PyPIVersion ''1.0RC1'' = Some \<lparr> release = [1, 0], pre = Some (''rc'', 1), post = None, dev = None \<rparr>"
  "PyPIVersion ''1.0c1'' = Some \<lparr> release = [1, 0], pre = Some (''rc'', 1), post = None, dev = None \<rparr>"
  "PyPIVersion ''1.0r1'' = Some \<lparr> release = [1, 0], pre = None, post = Some 1, dev = None \<rparr>"
  "PyPIVersion ''1.0-1'' = Some \<lparr> release = [1, 0], pre = None, post = Some 1, dev = None \<rparr>"
  "PyPIVersion ''1.0a-1'' = Some \<lparr> release = [1, 0], pre = Some (''a'', 1), post = None, dev = None \<rparr>"
  "PyPIVersion ''1.0a-'' = Some \<lparr> release = [1, 0], pre = Some (''a'', 0), post = None, dev = None \<rparr>"
  "PyPIVersion ''1.0.0.dev'' = Some \<lparr> release = [1, 0, 0], pre = None, post = None, dev = Some 0 \<rparr>"
  "PyPIVersion ''1!2.0.0'' = Some \<lparr> release = [2, 0, 0], pre = None, post = None, dev = None \<rparr>"
  "PyPIVersion ''v1.0.0+build.1 '' = Some \<lparr> release = [1, 0, 0], pre = None, post = None, dev = None \<rparr>"
  "PyPIVersion ''1.0.0.0.0'' = Some \<lparr> release = [1, 0, 0, 0, 0], pre = None, post = None, dev = None \<rparr>"
  "PyPIVersion ''1.0.0.dev1.post2'' = None"
  "PyPIVersion ''1.0prev'' = None"
  "PyPIVersion ''4.25.14p12'' = None"
  "PyPIVersion ''0.8.3ubuntu7.5'' = None"
  by code_simp+

lemma match_prefix_samples:
  "match_prefix ''v1.0.0'' = Some (''v'', ''1.0.0'')"
  "match_prefix ''V1.0.0'' = Some (''V'', ''1.0.0'')"
  "match_prefix ''pkg@v1.0.0'' = Some (''pkg@v'', ''1.0.0'')"
  "match_prefix ''a@v1@v2'' = Some (''a@v1@v'', ''2'')"
  "match_prefix ''v@v1'' = Some (''v@v'', ''1'')"
  "match_prefix ''@v1'' = None"
  "match_prefix ''pkg@V1.0.0'' = None"
  "match_prefix ''1.0.0'' = None"
  "match_prefix (''v1.0'' @ [newline] @ ''foo'') = Some (''v'', ''1.0'')"
  by code_simp+

lemma from_str_samples:
  "from_str '' >= 1.0.0 '' =
     Inr \<lparr> operator = ''>='', version = ''1.0.0'', VersionPredicate.version_format = SEMVER \<rparr>"
  "from_str ''=v4.2'' =
     Inr \<lparr> operator = ''=='', version = ''4.2.0'', VersionPredicate.version_format = SEMVER \<rparr>"
  "from_str ''invalid-predicate'' = Inl (ValueError ''Invalid version predicate format'')"
  "from_str ''>=x'' = Inl (ValueError ''Invalid version predicate format: Invalid version: x'')"
  by code_simp+

subsection \<open>Numbers and their decimal strings\<close>
















subsection \<open>Splitting and joining\<close>

lemma split_on_nonempty: "split_on c s \<noteq> []"
  by (induction s) (auto split: list.splits)


lemma split_on_append_sep:
  "c \<notin> set xs \<Longrightarrow> split_on c (xs @ c # ys) = xs # split_on c ys"
  by (induction xs) auto

lemma join_Cons: "ps \<noteq> [] \<Longrightarrow> join c (p # ps) = p @ c # join c ps"
  by (cases ps) simp_all

lemma join_split_on: "join c (split_on c s) = s"
proof (induction s)
  case Nil
  then show ?case by simp
next
  case (Cons y s)
  obtain q qs where q: "split_on c s = q # qs"
    by (cases "split_on c s") (auto simp: split_on_nonempty)
  show ?case
  proof (cases "y = c")
    case True
    with Cons q show ?thesis by (simp add: join_Cons)
  next
    case False
    with Cons q show ?thesis by (cases qs) auto
  qed
qed

lemma split_on_parts_no_sep: "p \<in> set (split_on c s) \<Longrightarrow> c \<notin> set p"
proof (induction s arbitrary: p)
  case Nil
  then show ?case by simp
next
  case (Cons y s)
  obtain q qs where q: "split_on c s = q # qs"
    by (cases "split_on c s") (auto simp: split_on_nonempty)
  from Cons.IH [of q] q have cq: "c \<notin> set q" by simp
  from Cons.IH q have cqs: "\<And>r. r \<in> set qs \<Longrightarrow> c \<notin> set r" by simp
  from Cons.prems q cq cqs show ?case
    by (auto split: if_splits)
qed

lemma set_join: "set (join c ps) \<subseteq> (\<Union>p \<in> set ps. set p) \<union> {c}"
  by (induction c ps rule: join.induct) auto

lemma set_join_part: "p \<in> set ps \<Longrightarrow> set p \<subseteq> set (join c ps)"
  by (induction c ps rule: join.induct) auto


lemma split_on_last: "s \<noteq> [] \<Longrightarrow> last s \<noteq> c \<Longrightarrow> last (split_on c s) \<noteq> [] \<and> last (last (split_on c s)) = last s"
proof (induction s)
  case Nil
  then show ?case by simp
next
  case (Cons y s)
  obtain q qs where q: "split_on c s = q # qs"
    by (cases "split_on c s") (auto simp: split_on_nonempty)
  show ?case
  proof (cases "s = []")
    case True
    with Cons.prems show ?thesis by simp
  next
    case False
    with Cons q show ?thesis by (cases qs) (auto split: if_splits)
  qed
qed

lemma last_nonempty_parts:
  assumes "\<forall>p \<in> set (split_on c s). p \<noteq> [] \<and> c' \<notin> set p" "c' \<noteq> c"
  shows "s \<noteq> [] \<and> c' \<notin> set s"
proof -
  from assms(1) have "hd (split_on c s) \<noteq> []"
    by (cases "split_on c s") (auto simp: split_on_nonempty)
  then have "s \<noteq> []" by (cases s) auto
  moreover have "c' \<notin> set s"
  proof
    assume "c' \<in> set s"
    then have "c' \<in> set (join c (split_on c s))" by (simp add: join_split_on)
    with set_join [of c "split_on c s"] assms show False by auto
  qed
  ultimately show ?thesis by simp
qed

subsection \<open>Parsing what \<open>str\<close> renders\<close>



















subsection \<open>Every parsed version is well formed\<close>





























subsection \<open>Comparison\<close>






























subsection \<open>\<open>to_pypi\<close> always returns\<close>

lemma index1_startswith:
  assumes "startswith p (w @ ''.'')" "CHR ''.'' \<notin> set w"
  shows "\<exists>n. index1 (split_on CHR ''.'' p) = Inr n"
proof -
  from assms(1) have "p = w @ CHR ''.'' # drop (Suc (length w)) p"
    by (metis append_take_drop_id startswith_def append.assoc append_Cons append_Nil length_append_singleton)
  then have "split_on CHR ''.'' p = w # split_on CHR ''.'' (drop (Suc (length w)) p)"
    using split_on_append_sep [OF assms(2)] by metis
  moreover obtain q qs where "split_on CHR ''.'' (drop (Suc (length w)) p) = q # qs"
    by (cases "split_on CHR ''.'' (drop (Suc (length w)) p)") (auto simp: split_on_nonempty)
  ultimately show ?thesis by (simp add: index1_def)
qed

lemma to_pypi_prerelease_total: "\<exists>r. to_pypi_prerelease s x = Inr r"
proof -
  have a: "startswith p ''alpha.'' \<Longrightarrow> \<exists>n. index1 (split_on CHR ''.'' p) = Inr n" for p
    using index1_startswith [of p "''alpha''"] by simp
  have b: "startswith p ''beta.'' \<Longrightarrow> \<exists>n. index1 (split_on CHR ''.'' p) = Inr n" for p
    using index1_startswith [of p "''beta''"] by simp
  have c: "startswith p ''rc.'' \<Longrightarrow> \<exists>n. index1 (split_on CHR ''.'' p) = Inr n" for p
    using index1_startswith [of p "''rc''"] by simp
  show ?thesis
    unfolding to_pypi_prerelease_def Let_def
    using a [of "the x"] b [of "the x"] c [of "the x"] by auto
qed

lemma to_pypi_build_total: "\<exists>r. to_pypi_build s x = Inr r"
proof -
  have a: "startswith p ''dev.'' \<Longrightarrow> \<exists>n. index1 (split_on CHR ''.'' p) = Inr n" for p
    using index1_startswith [of p "''dev''"] by simp
  have b: "startswith p ''post.'' \<Longrightarrow> \<exists>n. index1 (split_on CHR ''.'' p) = Inr n" for p
    using index1_startswith [of p "''post''"] by simp
  show ?thesis
    unfolding to_pypi_build_def Let_def
    using a [of "the x"] b [of "the x"] by auto
qed

lemma to_pypi_total: "\<exists>r. to_pypi v = Inr r"
proof -
  let ?t = "str_of_nat (major (version_info v)) @ ''.'' @ str_of_nat (minor (version_info v)) @ ''.''
                         @ str_of_nat (patch (version_info v))"
  obtain w where w: "to_pypi_prerelease ?t (prerelease (version_info v)) = Inr w"
    using to_pypi_prerelease_total by blast
  obtain r where "to_pypi_build w (build (version_info v)) = Inr r"
    using to_pypi_build_total by blast
  with w show ?thesis by (simp add: to_pypi_def Let_def)
qed


subsection \<open>Predicates built by \<open>from_str\<close>\<close>



lemma SemanticVersion_eq_typed:
  "SemanticVersion_eq v (PySemanticVersion w) = Inr (SemanticVersion_eq2 v w)"
  by (simp add: SemanticVersion_eq_def SemanticVersion_eq2_def)





subsection \<open>The errors of \<open>parse\<close>\<close>

lemma parse_error_message:
  "parse s = Inl e \<Longrightarrow>
     (\<exists>m. e = ValueError (''Invalid version: '' @ m))
     \<or> e = ValueError ''not enough values to unpack (expected 4)''"
  by (auto simp: parse_def Let_def parse_legacy_def parse_legacy_semver_def
           split: prod.splits sum.splits if_splits list.splits option.splits)

lemma parse_error_not_operator:
  "parse s \<noteq> Inl (ValueError (''Invalid operator: '' @ x))"
proof
  assume "parse s = Inl (ValueError (''Invalid operator: '' @ x))"
  from parse_error_message [OF this] show False by auto
qed

subsection \<open>PEP 440 strings with a post and a dev segment\<close>






































section \<open>Properties\<close>

subsection \<open>Strings that no decoder accepts\<close>

text \<open>
  Claim C2. The spec and the tests expect \<open>parse("4.25.14p12")\<close> to succeed with format
  \<open>RUBYGEMS\<close> and build \<open>p12\<close>. The module has no such decoder and no such member of
  \<open>VersionFormat\<close>: the semver pattern, the PEP 440 pattern and the legacy fallback all
  reject the string, and \<open>parse\<close> raises \<open>ValueError\<close>.
\<close>

theorem parse_rubygems_rejected:
  "parse ''4.25.14p12'' = Inl (ValueError ''Invalid version: 4.25.14p12'')"
  by code_simp

text \<open>
  Claim C5. The spec reads the prefix pattern as \<open>(anything ending in "@")?(v|V)\<close> and
  expects \<open>pkg@V1.0.0\<close> to lose the prefix \<open>pkg@V\<close>. The pattern of the module is
  \<open>((?:.+@)?v|V)\<close>, in which the \<open>@\<close> part belongs to the lower-case \<open>v\<close> only: nothing is
  stripped from \<open>pkg@V1.0.0\<close>, no decoder accepts the whole string, and \<open>parse\<close> raises
  \<open>ValueError\<close>, while \<open>pkg@v1.0.0\<close> is parsed with the prefix \<open>pkg@v\<close>.
\<close>

theorem parse_at_upper_V_rejected:
  "parse ''pkg@V1.0.0'' = Inl (ValueError ''Invalid version: pkg@V1.0.0'')
   \<and> match_prefix ''pkg@V1.0.0'' = None
   \<and> parse ''pkg@v1.0.0'' =
       Inr \<lparr> semver_parts = \<lparr> major = 1, minor = 0, patch = 0, prerelease = None, build = None \<rparr>,
             original_version = ''pkg@v1.0.0'', prefix = ''pkg@v'', version_format = SEMVER \<rparr>"
  by code_simp

subsection \<open>Equality with other objects\<close>

text \<open>
  Claim C8. \<open>SemanticVersion.__eq__\<close> raises \<open>NotImplementedError\<close> for every argument that
  is not a \<open>SemanticVersion\<close>; it neither returns \<open>False\<close> nor \<open>NotImplemented\<close>.
\<close>

theorem eq_other_type_raises:
  "(\<forall>v. other \<noteq> PySemanticVersion v) \<Longrightarrow> SemanticVersion_eq self other = Inl NotImplementedError"
  by (cases other) (simp_all add: SemanticVersion_eq_def)

theorem eq_other_type_raises_witness:
  "SemanticVersion_eq
     \<lparr> semver_parts = \<lparr> major = 1, minor = 0, patch = 0, prerelease = None, build = None \<rparr>,
       original_version = ''1.0.0'', prefix = [], version_format = SEMVER \<rparr>
     (PyStr ''1.0.0'') = Inl NotImplementedError"
  using eq_other_type_raises [of "PyStr ''1.0.0''"] by simp

subsection \<open>The installable version\<close>

text \<open>
  Claim C10. \<open>installable_version\<close> drops the first \<open>len(prefix)\<close> characters of
  \<open>original_version\<close> when \<open>original_version\<close> is not empty; for a \<open>SemanticVersion\<close> built
  with an empty \<open>original_version\<close> it is \<open>str(self)\<close>, which starts with the prefix when
  there is one.
\<close>

theorem installable_version_cases:
  "(original_version self \<noteq> [] \<longrightarrow>
      installable_version self = drop (length (prefix self)) (original_version self))
   \<and> (original_version self = [] \<longrightarrow>
      installable_version self = SemanticVersion_str self
      \<and> installable_version self = prefix self @ VersionInfo_str (version_info self))"
  by (simp add: installable_version_def SemanticVersion_str_def Let_def)

theorem installable_version_cases_witness:
  "installable_version
     \<lparr> semver_parts = \<lparr> major = 1, minor = 0, patch = 0, prerelease = None, build = None \<rparr>,
       original_version = [], prefix = ''v'', version_format = SEMVER \<rparr> = ''v1.0.0''
   \<and> installable_version
     \<lparr> semver_parts = \<lparr> major = 1, minor = 0, patch = 0, prerelease = None, build = None \<rparr>,
       original_version = ''v1.0.0'', prefix = ''v'', version_format = SEMVER \<rparr> = ''1.0.0''"
proof -
  let ?a = "\<lparr> semver_parts = \<lparr> major = 1, minor = 0, patch = 0, prerelease = None, build = None \<rparr>,
       original_version = [], prefix = ''v'', version_format = SEMVER \<rparr>"
  let ?b = "\<lparr> semver_parts = \<lparr> major = 1, minor = 0, patch = 0, prerelease = None, build = None \<rparr>,
       original_version = ''v1.0.0'', prefix = ''v'', version_format = SEMVER \<rparr>"
  have "original_version ?a = []"
    by simp
  with installable_version_cases [of ?a]
  have "installable_version ?a = prefix ?a @ VersionInfo_str (version_info ?a)"
    by blast
  also have "\<dots> = ''v1.0.0''"
    by code_simp
  finally have a: "installable_version ?a = ''v1.0.0''" .
  have "original_version ?b \<noteq> []"
    by simp
  with installable_version_cases [of ?b]
  have "installable_version ?b = drop (length (prefix ?b)) (original_version ?b)"
    by blast
  also have "\<dots> = ''1.0.0''"
    by simp
  finally have b: "installable_version ?b = ''1.0.0''" .
  from a b show ?thesis by simp
qed

subsection \<open>Matching a predicate\<close>




subsection \<open>Parsing the semver rendering again\<close>




subsection \<open>The version stored in a predicate\<close>



subsection \<open>Equality and order ignore the build\<close>



subsection \<open>Operators outside the six\<close>

text \<open>
  Claim C7. A \<open>VersionPredicate\<close> can be constructed with any operator string: the
  constructor stores it unchanged. \<open>operator_to_symbol\<close> raises \<open>ValueError("Invalid
  operator: ...")\<close> exactly when the operator is not one of the six of its table. The other
  operations do not consult the table: \<open>__str__\<close> concatenates operator and version,
  \<open>semver\<close> parses the version, and neither \<open>semver\<close> nor the two rendering methods ever
  raise that error.
\<close>

theorem invalid_operator_lazy:
  "operator \<lparr> operator = op, version = ver, VersionPredicate.version_format = fmt \<rparr> = op
   \<and> (op \<notin> set [''<'', ''<='', ''>'', ''>='', ''!='', ''==''] \<longrightarrow>
        operator_to_symbol \<lparr> operator = op, version = ver, VersionPredicate.version_format = fmt \<rparr>
          = Inl (ValueError (''Invalid operator: '' @ op)))
   \<and> (op \<in> set [''<'', ''<='', ''>'', ''>='', ''!='', ''==''] \<longrightarrow>
        (\<exists>symbol. operator_to_symbol \<lparr> operator = op, version = ver, VersionPredicate.version_format = fmt \<rparr>
          = Inr symbol))
   \<and> VersionPredicate_str \<lparr> operator = op, version = ver, VersionPredicate.version_format = fmt \<rparr>
        = op @ ver
   \<and> semver \<lparr> operator = op, version = ver, VersionPredicate.version_format = fmt \<rparr> = parse ver
   \<and> (\<forall>x. semver \<lparr> operator = op, version = ver, VersionPredicate.version_format = fmt \<rparr>
            \<noteq> Inl (ValueError (''Invalid operator: '' @ x))
          \<and> to_semver_predicate \<lparr> operator = op, version = ver, VersionPredicate.version_format = fmt \<rparr>
            \<noteq> Inl (ValueError (''Invalid operator: '' @ x))
          \<and> to_pypi_predicate \<lparr> operator = op, version = ver, VersionPredicate.version_format = fmt \<rparr>
            \<noteq> Inl (ValueError (''Invalid operator: '' @ x)))"
proof -
  let ?p = "\<lparr> operator = op, version = ver, VersionPredicate.version_format = fmt \<rparr>"
  have 1: "op \<notin> set [''<'', ''<='', ''>'', ''>='', ''!='', ''==''] \<longrightarrow>
        operator_to_symbol ?p = Inl (ValueError (''Invalid operator: '' @ op))"
    by (simp add: operator_to_symbol_def operator_map_def)
  have 2: "op \<in> set [''<'', ''<='', ''>'', ''>='', ''!='', ''==''] \<longrightarrow>
        (\<exists>symbol. operator_to_symbol ?p = Inr symbol)"
    by (auto simp: operator_to_symbol_def operator_map_def)
  have 3: "VersionPredicate_str ?p = op @ ver"
    by (simp add: VersionPredicate_str_def)
  have 4: "semver ?p = parse ver"
    by (simp add: semver_def)
  have 5: "semver ?p \<noteq> Inl (ValueError (''Invalid operator: '' @ x))" for x
    unfolding 4 by (rule parse_error_not_operator)
  have 6: "to_semver_predicate ?p \<noteq> Inl (ValueError (''Invalid operator: '' @ x))" for x
    using 5 [of x] by (cases "semver ?p") (simp_all add: to_semver_predicate_def)
  have 7: "to_pypi_predicate ?p \<noteq> Inl (ValueError (''Invalid operator: '' @ x))" for x
  proof (cases "semver ?p")
    case (Inl e)
    with 5 [of x] show ?thesis by (simp add: to_pypi_predicate_def)
  next
    case (Inr n)
    obtain r where "to_pypi n = Inr r" using to_pypi_total by blast
    with Inr show ?thesis by (simp add: to_pypi_predicate_def)
  qed
  from 1 2 3 4 5 6 7 show ?thesis by simp
qed

theorem invalid_operator_lazy_witness:
  "operator_to_symbol \<lparr> operator = ''invalid'', version = ''1.0.0'', VersionPredicate.version_format = SEMVER \<rparr>
     = Inl (ValueError ''Invalid operator: invalid'')
   \<and> VersionPredicate_str \<lparr> operator = ''invalid'', version = ''1.0.0'', VersionPredicate.version_format = SEMVER \<rparr>
     = ''invalid1.0.0''
   \<and> to_semver_predicate \<lparr> operator = ''invalid'', version = ''1.0.0'', VersionPredicate.version_format = SEMVER \<rparr>
     = Inr ''invalid1.0.0''"
proof -
  let ?p = "\<lparr> operator = ''invalid'', version = ''1.0.0'', VersionPredicate.version_format = SEMVER \<rparr>"
  have n: "''invalid'' \<notin> set [''<'', ''<='', ''>'', ''>='', ''!='', ''=='']"
    by simp
  from invalid_operator_lazy [of "''invalid''" "''1.0.0''" SEMVER] n
  have 1: "operator_to_symbol ?p = Inl (ValueError (''Invalid operator: '' @ ''invalid''))"
    by blast
  from invalid_operator_lazy [of "''invalid''" "''1.0.0''" SEMVER]
  have 2: "VersionPredicate_str ?p = ''invalid'' @ ''1.0.0''"
    by blast
  have 3: "to_semver_predicate ?p = Inr ''invalid1.0.0''"
    by code_simp
  from 1 2 3 show ?thesis by simp
qed

subsection \<open>Dev and post segments of a PEP 440 version\<close>




end
